theory Spec2Isabelle
  imports Main
begin

section \<open>Values, exceptions and collaborators\<close>

text \<open>
  The module \<^verbatim>\<open>fortnitepy/friend.py\<close> wraps server payloads into objects. A payload
  is decoded JSON, so a value read from it is any Python value of the JSON kinds; the
  code stores such values without checking them. A Python \<^verbatim>\<open>str\<close> is a \<open>string\<close>
  with one list element per character, so that \<open>length\<close> is Python's \<^verbatim>\<open>len\<close>.
  A \<^verbatim>\<open>datetime\<close> is a point on the UTC time line.
\<close>

type_synonym Datetime = int

datatype pyval =
    PyNone
  | PyBool bool
  | PyInt int
  | PyStr string
  | PyDatetime Datetime
  | PyList "pyval list"
  | PyDict "(string \<times> pyval) list"

text \<open>A \<^verbatim>\<open>dict\<close> with \<^verbatim>\<open>str\<close> keys handed to a method (\<^verbatim>\<open>data: dict\<close>).\<close>

type_synonym pydict = "string \<rightharpoonup> pyval"

text \<open>
  Exceptions. \<open>HTTPException\<close> carries the server's \<^verbatim>\<open>message_code\<close> and the raw
  message; it stands for every exception that \<^verbatim>\<open>except HTTPException\<close> catches.
  \<open>OtherError\<close> is any exception of a collaborator that the module neither raises nor
  catches.
\<close>

datatype exn =
    ValueError string
  | PartyError string
  | Forbidden string
  | HTTPException (message_code: pyval) (raw: pyval)
  | KeyError string
  | IndexError
  | TypeError
  | AttributeError
  | OtherError string

text \<open>Subscripts and lookups on a value that came out of a response.\<close>

fun getitem_key :: "pyval \<Rightarrow> string \<Rightarrow> exn + pyval" where
  "getitem_key (PyDict d) k = (case map_of d k of None \<Rightarrow> Inl (KeyError k) | Some v \<Rightarrow> Inr v)"
| "getitem_key v k = Inl TypeError"

fun getitem_0 :: "pyval \<Rightarrow> exn + pyval" where
  "getitem_0 (PyList xs) = (case xs of [] \<Rightarrow> Inl IndexError | x # _ \<Rightarrow> Inr x)"
| "getitem_0 (PyStr s) = (case s of [] \<Rightarrow> Inl IndexError | ch # _ \<Rightarrow> Inr (PyStr [ch]))"
| "getitem_0 (PyDict d) = Inl (KeyError ''0'')"
| "getitem_0 v = Inl TypeError"

fun py_get :: "pyval \<Rightarrow> string \<Rightarrow> exn + pyval" where
  "py_get (PyDict d) k = Inr (case map_of d k of None \<Rightarrow> PyNone | Some v \<Rightarrow> v)"
| "py_get v k = Inl AttributeError"

fun py_iter :: "pyval \<Rightarrow> exn + pyval list" where
  "py_iter (PyList xs) = Inr xs"
| "py_iter (PyStr s) = Inr (map (\<lambda>ch. PyStr [ch]) s)"
| "py_iter (PyDict d) = Inr (map (\<lambda>kv. PyStr (fst kv)) d)"
| "py_iter v = Inl TypeError"

definition bind_exn :: "exn + 'a \<Rightarrow> ('a \<Rightarrow> exn + 'b) \<Rightarrow> exn + 'b" where
  "bind_exn m f = (case m of Inl e \<Rightarrow> Inl e | Inr x \<Rightarrow> f x)"

text \<open>
  Modelled from the spec: the classes \<^verbatim>\<open>Presence\<close> and its party (presence.py) are
  not among the sources. The specification gives a presence an availability flag, a
  platform and a party that is marked private or not and has a join operation.
\<close>

record presence_party =
  party_id :: string
  private' :: bool

record presence =
  available :: bool
  platform :: string
  party :: presence_party

datatype ClientParty = ClientParty string

text \<open>
  Outbound calls, as the mock transport of the specification would count them: the
  methods of \<^verbatim>\<open>client\<close>, \<^verbatim>\<open>client.http\<close>, \<^verbatim>\<open>client.xmpp\<close> and of party objects
  that the module awaits.
\<close>

datatype call =
    Block_user string
  | Remove_or_decline_friend string
  | Friends_set_nickname string string
  | Friends_remove_nickname string
  | Friends_set_note string string
  | Friends_remove_note string
  | Presence_get_last_online
  | Friends_get_summary
  | Send_friend_message string string
  | Party_join string
  | Party_invite string

text \<open>
  The client the object was built with (client.py is not among the sources): its
  presence cache, its timestamp parser, and what the outside world answers to an
  outbound call, an exception or a value.
\<close>

record client =
  get_presence :: "string \<Rightarrow> presence option"
  from_iso :: "pyval \<Rightarrow> exn + Datetime"
  reply :: "call \<Rightarrow> exn + pyval"
  party_join :: "presence_party \<Rightarrow> exn + ClientParty"

section \<open>The objects\<close>

text \<open>
  Modelled from the spec: the class \<^verbatim>\<open>UserBase\<close> (user.py) is not among the sources.
  The specification gives it the identity fields \<^verbatim>\<open>id\<close>, \<^verbatim>\<open>displayName\<close> and
  \<^verbatim>\<open>externalAuths\<close>. Its updater and its serialiser are parameters of the methods
  below that call \<^verbatim>\<open>super()\<close>.
\<close>

record user_base =
  id' :: string
  display_name :: pyval
  external_auths :: pyval

text \<open>The slots of \<^verbatim>\<open>FriendBase\<close> and of \<^verbatim>\<open>Friend\<close>.\<close>

record friend_base = user_base +
  status :: pyval
  direction :: pyval
  favorite :: pyval
  created_at :: Datetime

record friend = friend_base +
  nickname :: pyval
  note' :: pyval
  last_logout :: "Datetime option"

text \<open>
  An awaited method returns or raises, and leaves the object and the log of outbound
  calls behind.
\<close>

type_synonym 'a outcome = "(exn + 'a) \<times> friend \<times> call list"

definition raised :: "'a outcome \<Rightarrow> exn option" where
  "raised r = (case fst r of Inl e \<Rightarrow> Some e | Inr _ \<Rightarrow> None)"

definition self_after :: "'a outcome \<Rightarrow> friend" where
  "self_after r = fst (snd r)"

definition calls_after :: "'a outcome \<Rightarrow> call list" where
  "calls_after r = snd (snd r)"

section \<open>Friend: nickname and note\<close>

definition ignored :: "pyval list" where
  "ignored = [PyStr ''errors.com.epicgames.common.unsupported_media_type'',
              PyStr ''errors.com.epicgames.validation.validation_failed'']"

text \<open>
  The handler \<^verbatim>\<open>except HTTPException as e\<close> of \<^verbatim>\<open>set_nickname\<close> and \<^verbatim>\<open>set_note\<close>:
  what propagates out of the \<^verbatim>\<open>try\<close> block when the awaited call raised \<open>e\<close>.
\<close>

fun except_HTTPException :: "string \<Rightarrow> exn \<Rightarrow> exn" where
  "except_HTTPException msg (HTTPException code m) =
     (if code \<in> set ignored then ValueError msg else HTTPException code m)"
| "except_HTTPException msg e = e"

definition set_nickname :: "client \<Rightarrow> string \<Rightarrow> friend \<Rightarrow> call list \<Rightarrow> unit outcome" where
  "set_nickname c nick self log =
     (if \<not> (3 \<le> length nick \<and> length nick \<le> 16)
      then (Inl (ValueError ''Invalid nickname length''), self, log)
      else
        (case reply c (Friends_set_nickname (id' self) nick) of
           Inl e \<Rightarrow> (Inl (except_HTTPException ''Invalid nickname'' e), self,
                     log @ [Friends_set_nickname (id' self) nick])
         | Inr _ \<Rightarrow> (Inr (), self\<lparr>nickname := PyStr nick\<rparr>,
                     log @ [Friends_set_nickname (id' self) nick])))"

definition remove_nickname :: "client \<Rightarrow> friend \<Rightarrow> call list \<Rightarrow> unit outcome" where
  "remove_nickname c self log =
     (case reply c (Friends_remove_nickname (id' self)) of
        Inl e \<Rightarrow> (Inl e, self, log @ [Friends_remove_nickname (id' self)])
      | Inr _ \<Rightarrow> (Inr (), self\<lparr>nickname := PyNone\<rparr>,
                  log @ [Friends_remove_nickname (id' self)]))"

definition set_note :: "client \<Rightarrow> string \<Rightarrow> friend \<Rightarrow> call list \<Rightarrow> unit outcome" where
  "set_note c n self log =
     (if \<not> (3 \<le> length n \<and> length n \<le> 255)
      then (Inl (ValueError ''Invalid note length''), self, log)
      else
        (case reply c (Friends_set_note (id' self) n) of
           Inl e \<Rightarrow> (Inl (except_HTTPException ''Invalid note'' e), self,
                     log @ [Friends_set_note (id' self) n])
         | Inr _ \<Rightarrow> (Inr (), self\<lparr>note' := PyStr n\<rparr>,
                     log @ [Friends_set_note (id' self) n])))"

definition remove_note :: "client \<Rightarrow> friend \<Rightarrow> call list \<Rightarrow> unit outcome" where
  "remove_note c self log =
     (case reply c (Friends_remove_note (id' self)) of
        Inl e \<Rightarrow> (Inl e, self, log @ [Friends_remove_note (id' self)])
      | Inr _ \<Rightarrow> (Inr (), self\<lparr>note' := PyNone\<rparr>,
                  log @ [Friends_remove_note (id' self)]))"

section \<open>FriendBase\<close>

definition user_base_of :: "'a user_base_scheme \<Rightarrow> user_base" where
  "user_base_of self =
     \<lparr>id' = id' self, display_name = display_name self, external_auths = external_auths self\<rparr>"

definition put_user_base :: "user_base \<Rightarrow> 'a user_base_scheme \<Rightarrow> 'a user_base_scheme" where
  "put_user_base u self =
     self\<lparr>id' := id' u, display_name := display_name u, external_auths := external_auths u\<rparr>"

text \<open>
  \<^verbatim>\<open>FriendBase._update\<close>. The first argument is \<^verbatim>\<open>UserBase._update\<close>. The method
  assigns slot after slot, so an exception leaves the slots assigned before it changed:
  the result is the exception, if any, and the object.
\<close>

definition FriendBase_update ::
  "(pydict \<Rightarrow> user_base \<Rightarrow> exn option \<times> user_base) \<Rightarrow> client \<Rightarrow> pydict \<Rightarrow>
   'a friend_base_scheme \<Rightarrow> exn option \<times> 'a friend_base_scheme" where
  "FriendBase_update ub c data self =
     (case ub data (user_base_of self) of
        (Some e, u) \<Rightarrow> (Some e, put_user_base u self)
      | (None, u) \<Rightarrow>
          (let self0 = put_user_base u self in
           case data ''status'' of
             None \<Rightarrow> (Some (KeyError ''status''), self0)
           | Some st \<Rightarrow>
               (let self1 = self0\<lparr>status := st\<rparr> in
                case data ''direction'' of
                  None \<Rightarrow> (Some (KeyError ''direction''), self1)
                | Some d \<Rightarrow>
                    (let self2 = self1\<lparr>direction := d\<rparr> in
                     case data ''created'' of
                       None \<Rightarrow> (Some (KeyError ''created''), self2)
                     | Some cr \<Rightarrow>
                         (case from_iso c cr of
                            Inl e \<Rightarrow> (Some e, self2)
                          | Inr t \<Rightarrow> (None, self2\<lparr>created_at := t\<rparr>))))))"

definition inbound :: "'a friend_base_scheme \<Rightarrow> bool" where
  "inbound self = (direction self = PyStr ''INBOUND'')"

definition outgoing :: "'a friend_base_scheme \<Rightarrow> bool" where
  "outgoing self = (direction self = PyStr ''OUTGOING'')"


definition block :: "client \<Rightarrow> 'a friend_base_scheme \<Rightarrow> call list \<Rightarrow> (exn + unit) \<times> call list" where
  "block c self log =
     (case reply c (Block_user (id' self)) of
        Inl e \<Rightarrow> (Inl e, log @ [Block_user (id' self)])
      | Inr _ \<Rightarrow> (Inr (), log @ [Block_user (id' self)]))"

section \<open>Friend\<close>

definition Friend_update ::
  "(pydict \<Rightarrow> user_base \<Rightarrow> exn option \<times> user_base) \<Rightarrow> client \<Rightarrow> pydict \<Rightarrow>
   friend \<Rightarrow> exn option \<times> friend" where
  "Friend_update ub c data self =
     (case FriendBase_update ub c data self of
        (Some e, self1) \<Rightarrow> (Some e, self1)
      | (None, self1) \<Rightarrow>
          (None, self1\<lparr>favorite := (case data ''favorite'' of None \<Rightarrow> PyNone | Some v \<Rightarrow> v)\<rparr>))"

text \<open>
  An object whose slots have not been assigned yet. No method reads a slot before the
  constructor has returned; the record needs a value in each field all the same.
\<close>

definition unassigned :: friend where
  "unassigned =
     \<lparr>id' = [], display_name = PyNone, external_auths = PyNone,
      status = PyNone, direction = PyNone, favorite = PyNone, created_at = 0,
      nickname = PyNone, note' = PyNone, last_logout = None\<rparr>"

text \<open>
  \<^verbatim>\<open>Friend.__init__\<close>. Modelled from the spec: \<^verbatim>\<open>UserBase.__init__\<close> (user.py) is
  not among the sources; an object is constructed from a server payload, so the chain
  of \<^verbatim>\<open>super().__init__\<close> calls runs the object's own \<^verbatim>\<open>_update\<close> on the payload.
  The constructor then sets the three slots of \<^verbatim>\<open>Friend\<close>. When \<^verbatim>\<open>_update\<close> raises,
  so does the constructor and there is no object.
\<close>

definition Friend_init ::
  "(pydict \<Rightarrow> user_base \<Rightarrow> exn option \<times> user_base) \<Rightarrow> client \<Rightarrow> pydict \<Rightarrow> exn + friend" where
  "Friend_init ub c data =
     (case Friend_update ub c data unassigned of
        (Some e, _) \<Rightarrow> Inl e
      | (None, self) \<Rightarrow> Inr (self\<lparr>last_logout := None, nickname := PyNone, note' := PyNone\<rparr>))"

definition Friend_update_last_logout :: "Datetime \<Rightarrow> friend \<Rightarrow> friend" where
  "Friend_update_last_logout dt self = self\<lparr>last_logout := Some dt\<rparr>"

definition Friend_update_summary :: "pydict \<Rightarrow> friend \<Rightarrow> exn option \<times> friend" where
  "Friend_update_summary data self =
     (case data ''alias'' of
        None \<Rightarrow> (Some (KeyError ''alias''), self)
      | Some alias \<Rightarrow>
          (let self1 = self\<lparr>nickname := (if alias \<noteq> PyStr [] then alias else PyNone)\<rparr> in
           case data ''note'' of
             None \<Rightarrow> (Some (KeyError ''note''), self1)
           | Some n \<Rightarrow> (None, self1\<lparr>note' := (if n \<noteq> PyStr [] then n else PyNone)\<rparr>)))"

definition last_presence :: "client \<Rightarrow> friend \<Rightarrow> presence option" where
  "last_presence c self = get_presence c (id' self)"

definition Friend_platform :: "client \<Rightarrow> friend \<Rightarrow> string option" where
  "Friend_platform c self =
     (case get_presence c (id' self) of None \<Rightarrow> None | Some pres \<Rightarrow> Some (platform pres))"

definition is_online :: "client \<Rightarrow> friend \<Rightarrow> bool" where
  "is_online c self =
     (case get_presence c (id' self) of None \<Rightarrow> False | Some pres \<Rightarrow> available pres)"

definition fetch_last_logout ::
  "client \<Rightarrow> friend \<Rightarrow> call list \<Rightarrow> (Datetime option) outcome" where
  "fetch_last_logout c self log =
     (case reply c Presence_get_last_online of
        Inl e \<Rightarrow> (Inl e, self, log @ [Presence_get_last_online])
      | Inr presences \<Rightarrow>
          (case py_get presences (id' self) of
             Inl e \<Rightarrow> (Inl e, self, log @ [Presence_get_last_online])
           | Inr presence \<Rightarrow>
               (if presence \<noteq> PyNone
                then
                  (case bind_exn (bind_exn (getitem_0 presence)
                                   (\<lambda>first. getitem_key first ''last_online''))
                                 (from_iso c) of
                     Inl e \<Rightarrow> (Inl e, self, log @ [Presence_get_last_online])
                   | Inr t \<Rightarrow>
                       (Inr (Some t), Friend_update_last_logout t self,
                        log @ [Presence_get_last_online]))
                else (Inr (last_logout self), self, log @ [Presence_get_last_online]))))"

text \<open>The \<^verbatim>\<open>for\<close> loop of \<^verbatim>\<open>fetch_mutual_friends_count\<close>; falling off its end returns \<^verbatim>\<open>None\<close>.\<close>

fun mutual_of :: "string \<Rightarrow> pyval list \<Rightarrow> exn + pyval" where
  "mutual_of i [] = Inr PyNone"
| "mutual_of i (entry # rest) =
     (case getitem_key entry ''accountId'' of
        Inl e \<Rightarrow> Inl e
      | Inr a \<Rightarrow> (if a = PyStr i then getitem_key entry ''mutual'' else mutual_of i rest))"

definition fetch_mutual_friends_count :: "client \<Rightarrow> friend \<Rightarrow> call list \<Rightarrow> pyval outcome" where
  "fetch_mutual_friends_count c self log =
     (bind_exn (reply c Friends_get_summary)
        (\<lambda>data. bind_exn (getitem_key data ''friends'')
           (\<lambda>friends. bind_exn (py_iter friends) (mutual_of (id' self)))),
      self, log @ [Friends_get_summary])"

definition remove' :: "client \<Rightarrow> friend \<Rightarrow> call list \<Rightarrow> unit outcome" where
  "remove' c self log =
     (case reply c (Remove_or_decline_friend (id' self)) of
        Inl e \<Rightarrow> (Inl e, self, log @ [Remove_or_decline_friend (id' self)])
      | Inr _ \<Rightarrow> (Inr (), self, log @ [Remove_or_decline_friend (id' self)]))"

text \<open>The recipient is \<^verbatim>\<open>self.jid\<close>, which \<^verbatim>\<open>UserBase\<close> derives from the id.\<close>

definition send :: "client \<Rightarrow> string \<Rightarrow> friend \<Rightarrow> call list \<Rightarrow> unit outcome" where
  "send c content self log =
     (case reply c (Send_friend_message (id' self) content) of
        Inl e \<Rightarrow> (Inl e, self, log @ [Send_friend_message (id' self) content])
      | Inr _ \<Rightarrow> (Inr (), self, log @ [Send_friend_message (id' self) content]))"

definition join_party :: "client \<Rightarrow> friend \<Rightarrow> call list \<Rightarrow> ClientParty outcome" where
  "join_party c self log =
     (case last_presence c self of
        None \<Rightarrow> (Inl (PartyError ''Could not join party. Reason: Party not found''), self, log)
      | Some pre \<Rightarrow>
          (if private' (party pre)
           then (Inl (Forbidden ''Could not join party. Reason: Party is private''), self, log)
           else (party_join c (party pre), self, log @ [Party_join (party_id (party pre))])))"

definition invite :: "client \<Rightarrow> friend \<Rightarrow> call list \<Rightarrow> unit outcome" where
  "invite c self log =
     (case reply c (Party_invite (id' self)) of
        Inl e \<Rightarrow> (Inl e, self, log @ [Party_invite (id' self)])
      | Inr _ \<Rightarrow> (Inr (), self, log @ [Party_invite (id' self)]))"

section \<open>Sequences of operations\<close>

text \<open>
  What a caller or the client can do to a \<^verbatim>\<open>Friend\<close> once it exists: the methods that
  assign a slot or await an outbound call. The accessors are functions of the object and
  the client and change nothing.
\<close>

datatype op =
    Op_update pydict
  | Op_update_last_logout Datetime
  | Op_update_summary pydict
  | Op_fetch_last_logout
  | Op_fetch_mutual_friends_count
  | Op_set_nickname string
  | Op_remove_nickname
  | Op_set_note string
  | Op_remove_note
  | Op_block
  | Op_remove
  | Op_send string
  | Op_join_party
  | Op_invite

text \<open>
  One operation, run against the client as it is at that moment. Whether it returned or
  raised, the caller goes on with the object and the call log it left.
\<close>

fun step ::
  "(pydict \<Rightarrow> user_base \<Rightarrow> exn option \<times> user_base) \<Rightarrow> client \<Rightarrow> op \<Rightarrow>
   friend \<times> call list \<Rightarrow> friend \<times> call list" where
  "step ub c (Op_update data) (self, log) = (snd (Friend_update ub c data self), log)"
| "step ub c (Op_update_last_logout dt) (self, log) = (Friend_update_last_logout dt self, log)"
| "step ub c (Op_update_summary data) (self, log) = (snd (Friend_update_summary data self), log)"
| "step ub c Op_fetch_last_logout (self, log) = snd (fetch_last_logout c self log)"
| "step ub c Op_fetch_mutual_friends_count (self, log) = snd (fetch_mutual_friends_count c self log)"
| "step ub c (Op_set_nickname nick) (self, log) = snd (set_nickname c nick self log)"
| "step ub c Op_remove_nickname (self, log) = snd (remove_nickname c self log)"
| "step ub c (Op_set_note n) (self, log) = snd (set_note c n self log)"
| "step ub c Op_remove_note (self, log) = snd (remove_note c self log)"
| "step ub c Op_block (self, log) = (self, snd (block c self log))"
| "step ub c Op_remove (self, log) = snd (remove' c self log)"
| "step ub c (Op_send content) (self, log) = snd (send c content self log)"
| "step ub c Op_join_party (self, log) = snd (join_party c self log)"
| "step ub c Op_invite (self, log) = snd (invite c self log)"

fun run ::
  "(pydict \<Rightarrow> user_base \<Rightarrow> exn option \<times> user_base) \<Rightarrow> (client \<times> op) list \<Rightarrow>
   friend \<times> call list \<Rightarrow> friend \<times> call list" where
  "run ub [] s = s"
| "run ub (cop # rest) s = run ub rest (step ub (fst cop) (snd cop) s)"


section \<open>The length bounds of the annotations\<close>

text \<open>The value is a \<^verbatim>\<open>str\<close> whose length lies between the two bounds.\<close>

fun length_in :: "nat \<Rightarrow> nat \<Rightarrow> pyval \<Rightarrow> bool" where
  "length_in lo hi (PyStr s) = (lo \<le> length s \<and> length s \<le> hi)"
| "length_in lo hi v = False"

definition annotations_ok :: "friend \<Rightarrow> bool" where
  "annotations_ok self =
     ((nickname self = PyNone \<or> length_in 3 16 (nickname self)) \<and>
      (note' self = PyNone \<or> length_in 3 255 (note' self)))"

text \<open>
  A summary payload whose \<^verbatim>\<open>alias\<close> and \<^verbatim>\<open>note\<close>, where it has them, are null, empty
  or within the bounds.
\<close>

fun unset_or_in :: "nat \<Rightarrow> nat \<Rightarrow> pyval option \<Rightarrow> bool" where
  "unset_or_in lo hi None = True"
| "unset_or_in lo hi (Some v) = (v = PyNone \<or> v = PyStr [] \<or> length_in lo hi v)"

definition summary_in_bounds :: "pydict \<Rightarrow> bool" where
  "summary_in_bounds data =
     (unset_or_in 3 16 (data ''alias'') \<and> unset_or_in 3 255 (data ''note''))"

fun op_in_bounds :: "op \<Rightarrow> bool" where
  "op_in_bounds (Op_update_summary data) = summary_in_bounds data"
| "op_in_bounds other = True"

section \<open>Concrete collaborators\<close>

text \<open>
  Modelled from the spec: \<^verbatim>\<open>UserBase._update\<close> and \<^verbatim>\<open>UserBase.get_raw\<close> (user.py)
  are not among the sources. By the specification the updater merges the identity fields
  of the payload into the object, and the serialiser returns the identity fields. The
  theorems below hold for every updater and serialiser; these two serve to evaluate the
  methods on concrete objects.
\<close>

definition UserBase_update :: "pydict \<Rightarrow> user_base \<Rightarrow> exn option \<times> user_base" where
  "UserBase_update data u =
     (None,
      u\<lparr>id' := (case data ''id'' of Some (PyStr i) \<Rightarrow> i | _ \<Rightarrow> id' u),
        display_name := (case data ''displayName'' of Some v \<Rightarrow> v | None \<Rightarrow> display_name u),
        external_auths :=
          (case data ''externalAuths'' of Some v \<Rightarrow> v | None \<Rightarrow> external_auths u)\<rparr>)"


text \<open>
  A mock client: a presence cache, a transport that answers every call with the same
  reply, a parser that knows one timestamp, and parties that let everybody in.
\<close>

definition mock_from_iso :: "pyval \<Rightarrow> exn + Datetime" where
  "mock_from_iso v =
     (if v = PyStr ''2024-01-01T00:00:00Z'' then Inr 1704067200
      else Inl (ValueError ''time data does not match format''))"

definition mock_client :: "(string \<Rightarrow> presence option) \<Rightarrow> (exn + pyval) \<Rightarrow> client" where
  "mock_client cache answer =
     \<lparr>get_presence = cache, from_iso = mock_from_iso, reply = (\<lambda>_. answer),
      party_join = (\<lambda>p. Inr (ClientParty (party_id p)))\<rparr>"

definition validation_failed :: exn where
  "validation_failed =
     HTTPException (PyStr ''errors.com.epicgames.validation.validation_failed'')
       (PyDict [(''errorCode'', PyStr ''errors.com.epicgames.validation.validation_failed'')])"

definition service_unavailable :: exn where
  "service_unavailable =
     HTTPException (PyStr ''errors.com.epicgames.common.service_unavailable'') PyNone"

definition alice :: friend where
  "alice =
     \<lparr>id' = ''a1'', display_name = PyStr ''Alice'', external_auths = PyList [],
      status = PyStr ''ACCEPTED'', direction = PyStr ''INBOUND'', favorite = PyBool True,
      created_at = 1704067200,
      nickname = PyStr ''Ally'', note' = PyStr ''met at work'', last_logout = Some 1704067200\<rparr>"

definition alice_payload :: pydict where
  "alice_payload =
     [''id'' \<mapsto> PyStr ''a1'', ''displayName'' \<mapsto> PyStr ''Alice'',
      ''status'' \<mapsto> PyStr ''ACCEPTED'', ''direction'' \<mapsto> PyStr ''INBOUND'',
      ''created'' \<mapsto> PyStr ''2024-01-01T00:00:00Z'', ''favorite'' \<mapsto> PyBool True,
      ''alias'' \<mapsto> PyStr ''Ally'', ''nickname'' \<mapsto> PyStr ''Ally'',
      ''note'' \<mapsto> PyStr ''met at work'',
      ''last_logout'' \<mapsto> PyStr ''2024-01-01T00:00:00Z'']"

definition online_in :: "bool \<Rightarrow> presence" where
  "online_in priv =
     \<lparr>available = True, platform = ''WIN'', party = \<lparr>party_id = ''p1'', private' = priv\<rparr>\<rparr>"

text \<open>The object that the constructor builds from \<open>alice_payload\<close>.\<close>

definition newborn_alice :: friend where
  "newborn_alice =
     \<lparr>id' = ''a1'', display_name = PyStr ''Alice'', external_auths = PyNone,
      status = PyStr ''ACCEPTED'', direction = PyStr ''INBOUND'', favorite = PyBool True,
      created_at = 1704067200,
      nickname = PyNone, note' = PyNone, last_logout = None\<rparr>"

section \<open>Claims about the setters\<close>

text \<open>
  C1. A nickname whose length is outside [3,16], and a note whose length is outside
  [3,255], makes \<^verbatim>\<open>set_nickname\<close> and \<^verbatim>\<open>set_note\<close> raise \<^verbatim>\<open>ValueError\<close> before any
  outbound call: the log of calls is the one before, and so is the whole object, the
  nickname and the note included.
\<close>

theorem length_rejected_before_any_call:
  "(\<not> (3 \<le> length nick \<and> length nick \<le> 16) \<longrightarrow>
      set_nickname c nick self log = (Inl (ValueError ''Invalid nickname length''), self, log)) \<and>
   (\<not> (3 \<le> length n \<and> length n \<le> 255) \<longrightarrow>
      set_note c n self log = (Inl (ValueError ''Invalid note length''), self, log))"
  by (simp add: set_nickname_def set_note_def)

text \<open>A nickname of two characters and a note of 256, against a transport that would accept them.\<close>

theorem length_rejected_before_any_call_witness:
  "\<not> (3 \<le> length ''ab'' \<and> length ''ab'' \<le> 16) \<and>
   set_nickname (mock_client Map.empty (Inr PyNone)) ''ab'' alice [] =
     (Inl (ValueError ''Invalid nickname length''), alice, []) \<and>
   \<not> (3 \<le> length (replicate 256 CHR ''x'') \<and> length (replicate 256 CHR ''x'') \<le> 255) \<and>
   set_note (mock_client Map.empty (Inr PyNone)) (replicate 256 CHR ''x'') alice [] =
     (Inl (ValueError ''Invalid note length''), alice, [])"
  using length_rejected_before_any_call
          [where nick = "''ab''" and n = "replicate 256 CHR ''x''"
             and c = "mock_client Map.empty (Inr PyNone)" and self = alice and log = "[]"]
  by simp

text \<open>
  C2. The four mutations are all or nothing on the object. When the outbound call of
  \<^verbatim>\<open>set_nickname\<close>, \<^verbatim>\<open>set_note\<close>, \<^verbatim>\<open>remove_nickname\<close> or \<^verbatim>\<open>remove_note\<close> raises,
  the method raises and the object is the one before; when the call returns, the method
  returns and the object differs from the one before in the one slot, which holds the
  requested value, or \<^verbatim>\<open>None\<close> after a removal.
\<close>

theorem mutation_all_or_nothing:
  "(3 \<le> length nick \<and> length nick \<le> 16 \<longrightarrow>
      (reply c (Friends_set_nickname (id' self) nick) = Inl e \<longrightarrow>
         raised (set_nickname c nick self log) \<noteq> None \<and>
         self_after (set_nickname c nick self log) = self) \<and>
      (reply c (Friends_set_nickname (id' self) nick) = Inr r \<longrightarrow>
         raised (set_nickname c nick self log) = None \<and>
         self_after (set_nickname c nick self log) = self\<lparr>nickname := PyStr nick\<rparr>)) \<and>
   (3 \<le> length n \<and> length n \<le> 255 \<longrightarrow>
      (reply c (Friends_set_note (id' self) n) = Inl e \<longrightarrow>
         raised (set_note c n self log) \<noteq> None \<and>
         self_after (set_note c n self log) = self) \<and>
      (reply c (Friends_set_note (id' self) n) = Inr r \<longrightarrow>
         raised (set_note c n self log) = None \<and>
         self_after (set_note c n self log) = self\<lparr>note' := PyStr n\<rparr>)) \<and>
   (reply c (Friends_remove_nickname (id' self)) = Inl e \<longrightarrow>
      raised (remove_nickname c self log) = Some e \<and>
      self_after (remove_nickname c self log) = self) \<and>
   (reply c (Friends_remove_nickname (id' self)) = Inr r \<longrightarrow>
      raised (remove_nickname c self log) = None \<and>
      self_after (remove_nickname c self log) = self\<lparr>nickname := PyNone\<rparr>) \<and>
   (reply c (Friends_remove_note (id' self)) = Inl e \<longrightarrow>
      raised (remove_note c self log) = Some e \<and>
      self_after (remove_note c self log) = self) \<and>
   (reply c (Friends_remove_note (id' self)) = Inr r \<longrightarrow>
      raised (remove_note c self log) = None \<and>
      self_after (remove_note c self log) = self\<lparr>note' := PyNone\<rparr>)"
  by (simp add: set_nickname_def set_note_def remove_nickname_def remove_note_def
        raised_def self_after_def)

text \<open>Both outcomes of the transport, on the same object.\<close>

theorem mutation_all_or_nothing_witness:
  "reply (mock_client Map.empty (Inl service_unavailable))
     (Friends_set_nickname (id' alice) ''Bud'') = Inl service_unavailable \<and>
   self_after (set_nickname (mock_client Map.empty (Inl service_unavailable)) ''Bud'' alice [])
     = alice \<and>
   self_after (set_note (mock_client Map.empty (Inl service_unavailable)) ''owes me'' alice [])
     = alice \<and>
   self_after (remove_nickname (mock_client Map.empty (Inl service_unavailable)) alice [])
     = alice \<and>
   self_after (remove_note (mock_client Map.empty (Inl service_unavailable)) alice [])
     = alice \<and>
   reply (mock_client Map.empty (Inr PyNone))
     (Friends_set_nickname (id' alice) ''Bud'') = Inr PyNone \<and>
   nickname (self_after (set_nickname (mock_client Map.empty (Inr PyNone)) ''Bud'' alice []))
     = PyStr ''Bud'' \<and>
   note' (self_after (set_note (mock_client Map.empty (Inr PyNone)) ''owes me'' alice []))
     = PyStr ''owes me'' \<and>
   nickname (self_after (remove_nickname (mock_client Map.empty (Inr PyNone)) alice []))
     = PyNone \<and>
   note' (self_after (remove_note (mock_client Map.empty (Inr PyNone)) alice [])) = PyNone"
  using mutation_all_or_nothing
          [where c = "mock_client Map.empty (Inl service_unavailable)"
             and e = service_unavailable and nick = "''Bud''" and n = "''owes me''"
             and self = alice and log = "[]"]
        mutation_all_or_nothing
          [where c = "mock_client Map.empty (Inr PyNone)"
             and r = PyNone and nick = "''Bud''" and n = "''owes me''"
             and self = alice and log = "[]"]
  by (simp add: mock_client_def)

text \<open>
  C3. When the outbound call of \<^verbatim>\<open>set_nickname\<close> or \<^verbatim>\<open>set_note\<close> fails with an
  \<^verbatim>\<open>HTTPException\<close>, the method raises \<^verbatim>\<open>ValueError\<close> if the message code is the
  unsupported-media-type or the validation-failed code, and the same exception otherwise;
  a failure that is no \<^verbatim>\<open>HTTPException\<close> is raised as it is.
\<close>

theorem reason_code_decides_the_error:
  "(3 \<le> length nick \<and> length nick \<le> 16 \<longrightarrow>
      (reply c (Friends_set_nickname (id' self) nick) = Inl (HTTPException code m) \<longrightarrow>
         raised (set_nickname c nick self log) =
           Some (if code = PyStr ''errors.com.epicgames.common.unsupported_media_type'' \<or>
                    code = PyStr ''errors.com.epicgames.validation.validation_failed''
                 then ValueError ''Invalid nickname'' else HTTPException code m)) \<and>
      (reply c (Friends_set_nickname (id' self) nick) = Inl e \<and> \<not> is_HTTPException e \<longrightarrow>
         raised (set_nickname c nick self log) = Some e)) \<and>
   (3 \<le> length n \<and> length n \<le> 255 \<longrightarrow>
      (reply c (Friends_set_note (id' self) n) = Inl (HTTPException code m) \<longrightarrow>
         raised (set_note c n self log) =
           Some (if code = PyStr ''errors.com.epicgames.common.unsupported_media_type'' \<or>
                    code = PyStr ''errors.com.epicgames.validation.validation_failed''
                 then ValueError ''Invalid note'' else HTTPException code m)) \<and>
      (reply c (Friends_set_note (id' self) n) = Inl e \<and> \<not> is_HTTPException e \<longrightarrow>
         raised (set_note c n self log) = Some e))"
  by (cases e) (auto simp: set_nickname_def set_note_def raised_def ignored_def)

text \<open>A validation failure, an unavailable service and a timeout.\<close>

theorem reason_code_decides_the_error_witness:
  "raised (set_nickname (mock_client Map.empty (Inl validation_failed)) ''Bud'' alice [])
     = Some (ValueError ''Invalid nickname'') \<and>
   raised (set_note (mock_client Map.empty (Inl validation_failed)) ''owes me'' alice [])
     = Some (ValueError ''Invalid note'') \<and>
   raised (set_nickname (mock_client Map.empty (Inl service_unavailable)) ''Bud'' alice [])
     = Some service_unavailable \<and>
   raised (set_note (mock_client Map.empty (Inl service_unavailable)) ''owes me'' alice [])
     = Some service_unavailable \<and>
   raised (set_nickname (mock_client Map.empty (Inl (OtherError ''timeout''))) ''Bud'' alice [])
     = Some (OtherError ''timeout'')"
  using reason_code_decides_the_error
          [where c = "mock_client Map.empty (Inl validation_failed)"
             and code = "PyStr ''errors.com.epicgames.validation.validation_failed''"
             and m = "raw validation_failed"
             and nick = "''Bud''" and n = "''owes me''" and self = alice and log = "[]"]
        reason_code_decides_the_error
          [where c = "mock_client Map.empty (Inl service_unavailable)"
             and code = "PyStr ''errors.com.epicgames.common.service_unavailable''"
             and m = PyNone
             and nick = "''Bud''" and n = "''owes me''" and self = alice and log = "[]"]
        reason_code_decides_the_error
          [where c = "mock_client Map.empty (Inl (OtherError ''timeout''))"
             and e = "OtherError ''timeout''"
             and nick = "''Bud''" and n = "''owes me''" and self = alice and log = "[]"]
  by (simp add: mock_client_def validation_failed_def service_unavailable_def)

section \<open>Claims about serialisation\<close>




section \<open>Claims about the annotations over time\<close>

text \<open>
  \<^verbatim>\<open>_update\<close> assigns the identity slots, the status, the direction, the creation time
  and the favorite flag, and no other slot.
\<close>

lemma FriendBase_update_keeps:
  fixes self :: friend
  shows
  "nickname (snd (FriendBase_update ub c data self)) = nickname self \<and>
   note' (snd (FriendBase_update ub c data self)) = note' self \<and>
   last_logout (snd (FriendBase_update ub c data self)) = last_logout self"
  by (simp add: FriendBase_update_def put_user_base_def Let_def
        split: prod.split option.split sum.split)

lemma Friend_update_keeps:
  "nickname (snd (Friend_update ub c data self)) = nickname self \<and>
   note' (snd (Friend_update ub c data self)) = note' self \<and>
   last_logout (snd (Friend_update ub c data self)) = last_logout self"
  using FriendBase_update_keeps [of ub c data self]
  by (cases "FriendBase_update ub c data self")
     (auto simp: Friend_update_def split: option.split)

lemma Friend_init_slots:
  "Friend_init ub c data = Inr self \<Longrightarrow>
     nickname self = PyNone \<and> note' self = PyNone \<and> last_logout self = None"
  by (auto simp: Friend_init_def split: prod.splits option.splits)


text \<open>
  The bounds survive every operation whose summary payload, if it has one, is within
  the bounds.
\<close>

lemma step_keeps_bounds:
  assumes "annotations_ok self" and "op_in_bounds op"
  shows "annotations_ok (fst (step ub c op (self, log)))"
proof (cases op)
  case (Op_update data)
  with assms show ?thesis by (simp add: annotations_ok_def Friend_update_keeps)
next
  case (Op_update_summary data)
  with assms have "summary_in_bounds data" by simp
  with assms(1) Op_update_summary show ?thesis
    by (auto simp: annotations_ok_def summary_in_bounds_def Friend_update_summary_def Let_def
          split: option.split)
next
  case Op_fetch_last_logout
  with assms show ?thesis
    by (simp add: annotations_ok_def fetch_last_logout_def Friend_update_last_logout_def
          split: sum.split)
next
  case (Op_set_nickname nick)
  with assms show ?thesis
    by (simp add: annotations_ok_def set_nickname_def split: sum.split)
next
  case (Op_set_note n)
  with assms show ?thesis
    by (simp add: annotations_ok_def set_note_def split: sum.split)
qed (use assms in \<open>simp_all add: annotations_ok_def Friend_update_last_logout_def
       fetch_mutual_friends_count_def remove_nickname_def remove_note_def remove'_def
       send_def join_party_def invite_def split: sum.split option.split\<close>)

lemma run_keeps_bounds:
  "annotations_ok (fst s) \<Longrightarrow> list_all (\<lambda>cop. op_in_bounds (snd cop)) ops \<Longrightarrow>
     annotations_ok (fst (run ub ops s))"
proof (induction ops arbitrary: s)
  case Nil
  then show ?case by simp
next
  case (Cons cop ops)
  obtain self log where s: "s = (self, log)" by (cases s)
  from Cons.prems s have "annotations_ok (fst (step ub (fst cop) (snd cop) s))"
    by (simp add: step_keeps_bounds)
  with Cons show ?case by simp
qed

text \<open>
  C5, as amended. Take a \<^verbatim>\<open>Friend\<close> as constructed and any sequence of operations,
  each against any client, in which every \<^verbatim>\<open>_update_summary\<close> payload has an
  \<^verbatim>\<open>alias\<close> that is null, empty or of length 3 to 16 and a \<^verbatim>\<open>note\<close> that is null, empty
  or of length 3 to 255. Afterwards the nickname, when it is not \<^verbatim>\<open>None\<close>, is a string of
  length 3 to 16, and the note, when it is not \<^verbatim>\<open>None\<close>, is a string of length 3 to 255.
\<close>

theorem annotation_lengths_kept:
  assumes "Friend_init ub c0 data = Inr self0"
    and "list_all (\<lambda>cop. op_in_bounds (snd cop)) ops"
  shows
  "(nickname (fst (run ub ops (self0, log))) \<noteq> PyNone \<longrightarrow>
      length_in 3 16 (nickname (fst (run ub ops (self0, log))))) \<and>
   (note' (fst (run ub ops (self0, log))) \<noteq> PyNone \<longrightarrow>
      length_in 3 255 (note' (fst (run ub ops (self0, log)))))"
proof -
  from assms(1) have "annotations_ok self0"
    using Friend_init_slots [of ub c0 data self0] by (simp add: annotations_ok_def)
  with assms(2) have "annotations_ok (fst (run ub ops (self0, log)))"
    by (simp add: run_keeps_bounds)
  then show ?thesis by (auto simp: annotations_ok_def)
qed

text \<open>
  A summary within the bounds, a nickname that is rejected for its length and a note
  that is accepted.
\<close>

theorem annotation_lengths_kept_witness:
  "Friend_init UserBase_update (mock_client Map.empty (Inr PyNone)) alice_payload
     = Inr newborn_alice \<and>
   list_all (\<lambda>cop. op_in_bounds (snd cop))
     [(mock_client Map.empty (Inr PyNone),
        Op_update_summary [''alias'' \<mapsto> PyStr ''Ally'', ''note'' \<mapsto> PyStr []]),
      (mock_client Map.empty (Inr PyNone), Op_set_nickname ''ab''),
      (mock_client Map.empty (Inr PyNone), Op_set_note ''owes me'')] \<and>
   nickname (fst (run UserBase_update
     [(mock_client Map.empty (Inr PyNone),
        Op_update_summary [''alias'' \<mapsto> PyStr ''Ally'', ''note'' \<mapsto> PyStr []]),
      (mock_client Map.empty (Inr PyNone), Op_set_nickname ''ab''),
      (mock_client Map.empty (Inr PyNone), Op_set_note ''owes me'')]
     (newborn_alice, []))) = PyStr ''Ally'' \<and>
   note' (fst (run UserBase_update
     [(mock_client Map.empty (Inr PyNone),
        Op_update_summary [''alias'' \<mapsto> PyStr ''Ally'', ''note'' \<mapsto> PyStr []]),
      (mock_client Map.empty (Inr PyNone), Op_set_nickname ''ab''),
      (mock_client Map.empty (Inr PyNone), Op_set_note ''owes me'')]
     (newborn_alice, []))) = PyStr ''owes me'' \<and>
   length_in 3 16 (PyStr ''Ally'') \<and> length_in 3 255 (PyStr ''owes me'')"
  using annotation_lengths_kept
          [where ub = UserBase_update and ?c0.0 = "mock_client Map.empty (Inr PyNone)"
             and data = alice_payload and ?self0.0 = newborn_alice and log = "[]"
             and ops = "[(mock_client Map.empty (Inr PyNone),
                 Op_update_summary [''alias'' \<mapsto> PyStr ''Ally'', ''note'' \<mapsto> PyStr []]),
               (mock_client Map.empty (Inr PyNone), Op_set_nickname ''ab''),
               (mock_client Map.empty (Inr PyNone), Op_set_note ''owes me'')]"]
  by (simp add: Friend_init_def Friend_update_def FriendBase_update_def UserBase_update_def
        user_base_of_def put_user_base_def unassigned_def mock_client_def mock_from_iso_def
        alice_payload_def newborn_alice_def Friend_update_summary_def summary_in_bounds_def
        set_nickname_def set_note_def)

text \<open>
  C5 as stated fails: \<^verbatim>\<open>_update_summary\<close> stores the alias of the payload unchecked, so a
  summary with an alias of two characters leaves a nickname of length 2.
\<close>

theorem annotation_lengths_counterexample:
  "Friend_init UserBase_update (mock_client Map.empty (Inr PyNone)) alice_payload
     = Inr newborn_alice \<and>
   nickname (fst (run UserBase_update
      [(mock_client Map.empty (Inr PyNone),
        Op_update_summary [''alias'' \<mapsto> PyStr ''ab'', ''note'' \<mapsto> PyStr []])]
      (newborn_alice, []))) = PyStr ''ab'' \<and>
   length ''ab'' = 2 \<and>
   \<not> length_in 3 16 (nickname (fst (run UserBase_update
      [(mock_client Map.empty (Inr PyNone),
        Op_update_summary [''alias'' \<mapsto> PyStr ''ab'', ''note'' \<mapsto> PyStr []])]
      (newborn_alice, []))))"
  by (simp add: Friend_init_def Friend_update_def FriendBase_update_def UserBase_update_def
        user_base_of_def put_user_base_def unassigned_def mock_client_def mock_from_iso_def
        alice_payload_def newborn_alice_def Friend_update_summary_def)



section \<open>Claims about presence and direction\<close>

text \<open>
  C6. \<^verbatim>\<open>join_party\<close> raises \<^verbatim>\<open>PartyError\<close> with the reason "Party not found" when the
  presence cache has nothing for the friend's id, and \<^verbatim>\<open>Forbidden\<close> when the party of the
  cached presence is private, in both cases without an outbound call; otherwise it calls
  the join operation of that party and its result, the party handle or the exception, is
  the result of the method.
\<close>

theorem join_party_outcomes:
  "(get_presence c (id' self) = None \<longrightarrow>
      join_party c self log =
        (Inl (PartyError ''Could not join party. Reason: Party not found''), self, log)) \<and>
   (get_presence c (id' self) = Some pre \<and> private' (party pre) \<longrightarrow>
      join_party c self log =
        (Inl (Forbidden ''Could not join party. Reason: Party is private''), self, log)) \<and>
   (get_presence c (id' self) = Some pre \<and> \<not> private' (party pre) \<longrightarrow>
      fst (join_party c self log) = party_join c (party pre) \<and>
      self_after (join_party c self log) = self \<and>
      calls_after (join_party c self log) = log @ [Party_join (party_id (party pre))])"
  by (simp add: join_party_def last_presence_def self_after_def calls_after_def)

text \<open>
  No presence, a private party and an open party.
\<close>

theorem join_party_outcomes_witness:
  "get_presence (mock_client Map.empty (Inr PyNone)) (id' alice) = None \<and>
   raised (join_party (mock_client Map.empty (Inr PyNone)) alice []) =
     Some (PartyError ''Could not join party. Reason: Party not found'') \<and>
   private' (party (online_in True)) \<and>
   raised (join_party (mock_client [''a1'' \<mapsto> online_in True] (Inr PyNone)) alice []) =
     Some (Forbidden ''Could not join party. Reason: Party is private'') \<and>
   \<not> private' (party (online_in False)) \<and>
   fst (join_party (mock_client [''a1'' \<mapsto> online_in False] (Inr PyNone)) alice []) =
     Inr (ClientParty ''p1'') \<and>
   calls_after (join_party (mock_client [''a1'' \<mapsto> online_in False] (Inr PyNone)) alice []) =
     [Party_join ''p1'']"
  using join_party_outcomes
          [where c = "mock_client Map.empty (Inr PyNone)" and self = alice and log = "[]"]
        join_party_outcomes
          [where c = "mock_client [''a1'' \<mapsto> online_in True] (Inr PyNone)"
             and pre = "online_in True" and self = alice and log = "[]"]
        join_party_outcomes
          [where c = "mock_client [''a1'' \<mapsto> online_in False] (Inr PyNone)"
             and pre = "online_in False" and self = alice and log = "[]"]
  by (simp add: mock_client_def alice_def online_in_def raised_def)

text \<open>
  C7. \<^verbatim>\<open>is_online\<close> is false when the presence cache has no entry for the friend's id,
  and is the availability flag of the cached presence when it has one.
\<close>

theorem is_online_reads_the_cache:
  "(get_presence c (id' self) = None \<longrightarrow> is_online c self = False) \<and>
   (get_presence c (id' self) = Some pres \<longrightarrow> is_online c self = available pres)"
  by (simp add: is_online_def)

text \<open>
  No presence, an available one and an unavailable one.
\<close>

theorem is_online_reads_the_cache_witness:
  "get_presence (mock_client Map.empty (Inr PyNone)) (id' alice) = None \<and>
   is_online (mock_client Map.empty (Inr PyNone)) alice = False \<and>
   get_presence (mock_client [''a1'' \<mapsto> online_in True] (Inr PyNone)) (id' alice)
     = Some (online_in True) \<and>
   is_online (mock_client [''a1'' \<mapsto> online_in True] (Inr PyNone)) alice = True \<and>
   is_online (mock_client [''a1'' \<mapsto> (online_in True)\<lparr>available := False\<rparr>] (Inr PyNone)) alice
     = False"
  using is_online_reads_the_cache
          [where c = "mock_client Map.empty (Inr PyNone)" and self = alice]
        is_online_reads_the_cache
          [where c = "mock_client [''a1'' \<mapsto> online_in True] (Inr PyNone)"
             and pres = "online_in True" and self = alice]
        is_online_reads_the_cache
          [where c = "mock_client [''a1'' \<mapsto> (online_in True)\<lparr>available := False\<rparr>] (Inr PyNone)"
             and pres = "(online_in True)\<lparr>available := False\<rparr>" and self = alice]
  by (simp add: mock_client_def alice_def online_in_def)

text \<open>
  C8. When the direction is \<^verbatim>\<open>INBOUND\<close> or \<^verbatim>\<open>OUTGOING\<close>, exactly one of \<^verbatim>\<open>inbound\<close>
  and \<^verbatim>\<open>outgoing\<close> is true: not both, and not neither.
\<close>

theorem inbound_outgoing_exactly_one:
  "direction self = PyStr ''INBOUND'' \<or> direction self = PyStr ''OUTGOING'' \<Longrightarrow>
     (inbound self \<or> outgoing self) \<and> \<not> (inbound self \<and> outgoing self)"
  by (auto simp: inbound_def outgoing_def)

text \<open>
  An inbound \<^verbatim>\<open>Friend\<close> and an outgoing \<^verbatim>\<open>FriendBase\<close>.
\<close>

theorem inbound_outgoing_exactly_one_witness:
  "direction alice = PyStr ''INBOUND'' \<and> inbound alice \<and> \<not> outgoing alice \<and>
   direction (friend_base.truncate (alice\<lparr>direction := PyStr ''OUTGOING''\<rparr>)) = PyStr ''OUTGOING'' \<and>
   outgoing (friend_base.truncate (alice\<lparr>direction := PyStr ''OUTGOING''\<rparr>)) \<and>
   \<not> inbound (friend_base.truncate (alice\<lparr>direction := PyStr ''OUTGOING''\<rparr>))"
  using inbound_outgoing_exactly_one [where self = alice]
        inbound_outgoing_exactly_one
          [where self = "friend_base.truncate (alice\<lparr>direction := PyStr ''OUTGOING''\<rparr>)"]
  by (simp add: alice_def inbound_def outgoing_def friend_base.truncate_def)




end
